theory Spec2Isabelle
  imports Main
begin

section \<open>The knowledge base\<close>

text \<open>
  The program (\<^verbatim>\<open>covid_expert_system.py\<close>) hands three rules, written as text in
  \<^verbatim>\<open>KNOWLEDGE_BASE\<close>, to a forward-chaining rule engine, asserts one \<^verbatim>\<open>patient\<close>
  fact built from four answers, runs the engine and shows the message of the first
  \<^verbatim>\<open>result\<close> fact it finds.

  A slot of the \<^verbatim>\<open>patient\<close> template holds a symbol; a symbol is modelled by its
  name. The engine's reader, which turns the text of a fact into a fact, is not part of the
  model: the model starts from the fact that the reader gives when each of the four answers
  is one symbol (\<open>one_symbol\<close> below), as the \<^verbatim>\<open>yes\<close> and \<^verbatim>\<open>no\<close> of the
  check boxes are.
\<close>

type_synonym symbol = string

text \<open>
  The two templates: \<^verbatim>\<open>patient\<close> with the slots \<^verbatim>\<open>fever\<close>, \<^verbatim>\<open>cough\<close>,
  \<^verbatim>\<open>loss-of-smell\<close> and \<^verbatim>\<open>contact-with-patient\<close> (in this order), and
  \<^verbatim>\<open>result\<close> with the slot \<^verbatim>\<open>message\<close>.
\<close>

datatype fact =
    Patient symbol symbol symbol symbol
  | Result string

datatype slot = Fever | Cough | Loss_of_smell | Contact_with_patient

text \<open>
  Every slot of \<^verbatim>\<open>patient\<close> is declared \<^verbatim>\<open>(default no)\<close>: a slot that the text of
  a fact leaves out holds \<^verbatim>\<open>no\<close>.
\<close>

definition slot_value :: "(slot \<Rightarrow> symbol option) \<Rightarrow> slot \<Rightarrow> symbol" where
  "slot_value given s = (case given s of Some v \<Rightarrow> v | None \<Rightarrow> ''no'')"

definition deftemplate_patient :: "(slot \<Rightarrow> symbol option) \<Rightarrow> fact" where
  "deftemplate_patient given =
     Patient (slot_value given Fever) (slot_value given Cough)
       (slot_value given Loss_of_smell) (slot_value given Contact_with_patient)"

datatype rule = Rule_1_high_risk | Rule_2_moderate_risk | Rule_3_low_risk

definition KNOWLEDGE_BASE :: "rule list" where
  "KNOWLEDGE_BASE = [Rule_1_high_risk, Rule_2_moderate_risk, Rule_3_low_risk]"

fun is_result :: "fact \<Rightarrow> bool" where
  "is_result (Result m) = True"
| "is_result (Patient fever cough smell contact) = False"

text \<open>
  The left-hand side of a rule, against the working memory \<open>wm\<close> and the fact that its
  \<^verbatim>\<open>patient\<close> pattern is matched with. The pattern of rule 1 constrains two slots, that
  of rule 2 three, that of rule 3 none; \<^verbatim>\<open>(not (result))\<close> holds while the working
  memory has no \<^verbatim>\<open>result\<close> fact. A slot constraint is the literal symbol \<^verbatim>\<open>yes\<close>.
\<close>

fun lhs :: "rule \<Rightarrow> fact list \<Rightarrow> fact \<Rightarrow> bool" where
  "lhs Rule_1_high_risk wm (Patient fever cough smell contact) =
     (fever = ''yes'' \<and> smell = ''yes'')"
| "lhs Rule_2_moderate_risk wm (Patient fever cough smell contact) =
     (fever = ''yes'' \<and> cough = ''yes'' \<and> contact = ''yes'' \<and> \<not> list_ex is_result wm)"
| "lhs Rule_3_low_risk wm (Patient fever cough smell contact) =
     (\<not> list_ex is_result wm)"
| "lhs r wm (Result m) = False"

text \<open>The right-hand side of a rule: the fact it asserts.\<close>

fun rhs :: "rule \<Rightarrow> fact" where
  "rhs Rule_1_high_risk =
     Result ''Diagnosis: High Risk for COVID-19. Please get tested immediately and isolate.''"
| "rhs Rule_2_moderate_risk =
     Result ''Diagnosis: Moderate Risk for COVID-19. Monitor symptoms closely and consider testing.''"
| "rhs Rule_3_low_risk =
     Result ''Diagnosis: Low Risk. Symptoms may be due to other causes. Monitor your health.''"

section \<open>The rule engine\<close>

text \<open>
  The engine is a library outside the program; what the program uses of it is modelled
  here. An environment holds the fact list, in the order of assertion, and the agenda: the
  activations (a rule with the fact its pattern matched) that wait to fire, the next one
  first. No rule declares a salience, so all activations have the same one.

  Asserting a fact that is already there changes nothing. Otherwise the fact goes to the end
  of the fact list, the activations that it completes go on top of the agenda, and the
  activations whose \<^verbatim>\<open>(not (result))\<close> it falsifies leave the agenda.

  The engine's manual leaves open in which order the activations that one and the same fact
  completes are stacked. The model takes this order as the parameter \<open>stacking\<close>: of two
  such activations, the one whose rule has the smaller number is nearer to the top (rules
  with the same number keep the order of the knowledge base).
\<close>

record environment =
  facts :: "fact list"
  agenda :: "(rule \<times> fact) list"

definition activations :: "(rule \<Rightarrow> nat) \<Rightarrow> fact list \<Rightarrow> fact \<Rightarrow> (rule \<times> fact) list" where
  "activations stacking wm f =
     map (\<lambda>r. (r, f)) (sort_key stacking (filter (\<lambda>r. lhs r wm f) KNOWLEDGE_BASE))"

definition assert_fact :: "(rule \<Rightarrow> nat) \<Rightarrow> environment \<Rightarrow> fact \<Rightarrow> environment" where
  "assert_fact stacking e f =
     (if f \<in> set (facts e) then e
      else let wm = facts e @ [f]
           in \<lparr>facts = wm,
               agenda = activations stacking wm f @ filter (\<lambda>(r, p). lhs r wm p) (agenda e)\<rparr>)"

text \<open>\<^verbatim>\<open>env.reset()\<close>: the knowledge base has no \<^verbatim>\<open>deffacts\<close>.\<close>

definition reset :: "environment \<Rightarrow> environment" where
  "reset e = \<lparr>facts = [], agenda = []\<rparr>"

text \<open>\<^verbatim>\<open>env.run()\<close>: fire the activation on top of the agenda until the agenda is empty.\<close>

function run :: "(rule \<Rightarrow> nat) \<Rightarrow> environment \<Rightarrow> environment" where
  "run stacking e =
     (case agenda e of
        [] \<Rightarrow> e
      | (r, p) # rest \<Rightarrow> run stacking (assert_fact stacking (e\<lparr>agenda := rest\<rparr>) (rhs r)))"
  by pat_completeness auto
termination
proof (relation "measure (\<lambda>(stacking, e). length (agenda e))")
  show "wf (measure (\<lambda>(stacking, e). length (agenda e)))"
    by simp
next
  fix stacking :: "rule \<Rightarrow> nat" and e :: environment and x xs r p
  assume "agenda e = x # xs" and "(r, p) = x"
  moreover have "length (agenda (assert_fact stacking (e\<lparr>agenda := xs\<rparr>) (rhs r))) \<le> length xs"
    by (cases r) (simp_all add: assert_fact_def activations_def Let_def)
  ultimately show "((stacking, assert_fact stacking (e\<lparr>agenda := xs\<rparr>) (rhs r)), stacking, e)
      \<in> measure (\<lambda>(stacking, e). length (agenda e))"
    by simp
qed

declare run.simps [simp del]

section \<open>The application\<close>

text \<open>
  The state of a \<^verbatim>\<open>CovidExpertSystem\<close> object that \<^verbatim>\<open>run_diagnosis\<close> reads and
  writes: the environment and the five variables of the form.
\<close>

record app =
  env :: environment
  fever_var :: string
  cough_var :: string
  loss_of_smell_var :: string
  contact_var :: string
  result_var :: string

text \<open>
  The object that \<^verbatim>\<open>__init__\<close> builds when the rules load: a fresh environment, the
  four answers \<^verbatim>\<open>no\<close>. (When loading fails, the handler writes to \<^verbatim>\<open>result_var\<close>
  before that attribute exists, so that no object is built at all.)
\<close>

definition init :: app where
  "init = \<lparr>env = \<lparr>facts = [], agenda = []\<rparr>,
           fever_var = ''no'', cough_var = ''no'', loss_of_smell_var = ''no'',
           contact_var = ''no'', result_var = ''Diagnosis will appear here.''\<rparr>"

text \<open>
  A check box writes its \<^verbatim>\<open>onvalue\<close> \<^verbatim>\<open>yes\<close> to its variable when ticked and its
  \<^verbatim>\<open>offvalue\<close> \<^verbatim>\<open>no\<close> when cleared.
\<close>

definition checkbutton :: "bool \<Rightarrow> string" where
  "checkbutton ticked = (if ticked then ''yes'' else ''no'')"

definition set_checkbuttons :: "bool \<Rightarrow> bool \<Rightarrow> bool \<Rightarrow> bool \<Rightarrow> app \<Rightarrow> app" where
  "set_checkbuttons fever cough smell contact a =
     a\<lparr>fever_var := checkbutton fever, cough_var := checkbutton cough,
       loss_of_smell_var := checkbutton smell, contact_var := checkbutton contact\<rparr>"

text \<open>
  Step 5 of \<^verbatim>\<open>run_diagnosis\<close>: the loop over the facts that stops at the first
  \<^verbatim>\<open>result\<close> fact, and the text shown when the loop finds none.
\<close>

fun find_result :: "fact list \<Rightarrow> string option" where
  "find_result [] = None"
| "find_result (Result m # fs) = Some m"
| "find_result (Patient fever cough smell contact # fs) = find_result fs"

definition display :: "fact list \<Rightarrow> string" where
  "display fs =
     (case find_result fs of
        Some m \<Rightarrow> m
      | None \<Rightarrow> ''Could not determine diagnosis.'')"




text \<open>
  \<^verbatim>\<open>run_diagnosis\<close>: reset, read the four variables, assert the \<^verbatim>\<open>patient\<close> fact
  that names all four slots, run, show the result.

  The program writes the four variables into the text of the fact and hands the text to the
  engine. The model asserts the fact that holds the four contents as they are: this is the
  fact the reader gives when each content is one symbol, which is all a check box can write.
  A content that is not one symbol (blanks around a word, an empty text, two words, a
  number) is read as something else or refused by the engine: such contents are outside the
  model.
\<close>

definition run_diagnosis :: "(rule \<Rightarrow> nat) \<Rightarrow> app \<Rightarrow> app" where
  "run_diagnosis stacking a =
     (let e1 = reset (env a);
          fever = fever_var a;
          cough = cough_var a;
          loss_of_smell = loss_of_smell_var a;
          contact = contact_var a;
          e2 = assert_fact stacking e1
                 (deftemplate_patient
                    [Fever \<mapsto> fever, Cough \<mapsto> cough, Loss_of_smell \<mapsto> loss_of_smell,
                     Contact_with_patient \<mapsto> contact]);
          e3 = run stacking e2
      in a\<lparr>env := e3, result_var := display (facts e3)\<rparr>)"

text \<open>
  Modelled from the spec: the order in which the engine fires the rules that one fact
  activates together. The engine is not under \<^verbatim>\<open>src/\<close>; the spec says that rule
  evaluation is in the fixed order rule 1 before rule 2 before rule 3.
\<close>

fun definition_order :: "rule \<Rightarrow> nat" where
  "definition_order Rule_1_high_risk = 0"
| "definition_order Rule_2_moderate_risk = 1"
| "definition_order Rule_3_low_risk = 2"

text \<open>
  The classifier in the words of the spec (section 4.1): an else-if chain over four
  booleans.
\<close>

definition classify_spec :: "bool \<Rightarrow> bool \<Rightarrow> bool \<Rightarrow> bool \<Rightarrow> string" where
  "classify_spec fever cough lossOfSmell contactWithCase =
     (if fever \<and> lossOfSmell then
        ''Diagnosis: High Risk for COVID-19. Please get tested immediately and isolate.''
      else if fever \<and> cough \<and> contactWithCase then
        ''Diagnosis: Moderate Risk for COVID-19. Monitor symptoms closely and consider testing.''
      else
        ''Diagnosis: Low Risk. Symptoms may be due to other causes. Monitor your health.'')"

text \<open>
  The sixteen records of four booleans, and what the spec calls \<^verbatim>\<open>classify\<close> as the
  program does it: set the four check boxes, run the diagnosis, read the text shown.
\<close>

definition symptom_records :: "(bool \<times> bool \<times> bool \<times> bool) list" where
  "symptom_records =
     [(fever, cough, lossOfSmell, contactWithCase).
        fever \<leftarrow> [False, True], cough \<leftarrow> [False, True],
        lossOfSmell \<leftarrow> [False, True], contactWithCase \<leftarrow> [False, True]]"

fun fever_and_loss_of_smell :: "bool \<times> bool \<times> bool \<times> bool \<Rightarrow> bool" where
  "fever_and_loss_of_smell (fever, cough, lossOfSmell, contactWithCase) = (fever \<and> lossOfSmell)"

fun classify :: "bool \<times> bool \<times> bool \<times> bool \<Rightarrow> string" where
  "classify (fever, cough, lossOfSmell, contactWithCase) =
     result_var (run_diagnosis definition_order
       (set_checkbuttons fever cough lossOfSmell contactWithCase init))"

definition shows_high_risk :: "bool \<times> bool \<times> bool \<times> bool \<Rightarrow> bool" where
  "shows_high_risk r =
     (classify r = ''Diagnosis: High Risk for COVID-19. Please get tested immediately and isolate.'')"


section \<open>The loop over the facts\<close>

lemma find_result_append:
  "find_result (fs @ gs) = (case find_result fs of Some m \<Rightarrow> Some m | None \<Rightarrow> find_result gs)"
  by (induction fs rule: find_result.induct) simp_all

lemma find_result_None_iff: "find_result fs = None \<longleftrightarrow> \<not> list_ex is_result fs"
  by (induction fs rule: find_result.induct) simp_all

lemma find_result_rhs: "find_result [rhs r] \<noteq> None"
  by (cases r) simp_all

section \<open>Steps of the engine\<close>

lemma facts_assert_fact:
  "facts (assert_fact stacking e f) = (if f \<in> set (facts e) then facts e else facts e @ [f])"
  by (simp add: assert_fact_def Let_def)

lemma run_empty: "agenda e = [] \<Longrightarrow> run stacking e = e"
  by (simp add: run.simps)

lemma run_fire:
  "agenda e = (r, p) # rest \<Longrightarrow>
   run stacking e = run stacking (assert_fact stacking (e\<lparr>agenda := rest\<rparr>) (rhs r))"
  by (subst run.simps) simp

lemma run_Nil: "run stacking \<lparr>facts = fs, agenda = []\<rparr> = \<lparr>facts = fs, agenda = []\<rparr>"
  by (simp add: run_empty)

lemma run_Cons:
  "run stacking \<lparr>facts = fs, agenda = (r, p) # rest\<rparr> =
   run stacking (assert_fact stacking \<lparr>facts = fs, agenda = rest\<rparr> (rhs r))"
  by (simp add: run_fire [of _ r p rest])

lemma assert_Result:
  "\<not> list_ex is_result fs \<Longrightarrow>
   assert_fact stacking \<lparr>facts = fs, agenda = ag\<rparr> (Result m) =
   \<lparr>facts = fs @ [Result m], agenda = filter (\<lambda>(r, p). lhs r (fs @ [Result m]) p) ag\<rparr>"
  by (auto simp: assert_fact_def activations_def Let_def list_ex_iff)

lemma assert_patient_reset:
  "assert_fact stacking (reset e) (Patient f c l k) =
   \<lparr>facts = [Patient f c l k],
     agenda = activations stacking [Patient f c l k] (Patient f c l k)\<rparr>"
  by (simp add: assert_fact_def reset_def Let_def)

text \<open>The facts only grow, so the first \<^verbatim>\<open>result\<close> fact stays the first.\<close>

lemma find_result_run_Some:
  "find_result (facts e) = Some m \<Longrightarrow> find_result (facts (run stacking e)) = Some m"
proof (induction stacking e rule: run.induct)
  case (1 stacking e)
  show ?case
  proof (cases "agenda e")
    case Nil
    with "1.prems" show ?thesis by (simp add: run_empty)
  next
    case (Cons x rest)
    obtain r p where x: "x = (r, p)" by (cases x)
    let ?e = "assert_fact stacking (e\<lparr>agenda := rest\<rparr>) (rhs r)"
    have "find_result (facts ?e) = Some m"
      using "1.prems" by (simp add: facts_assert_fact find_result_append)
    then have "find_result (facts (run stacking ?e)) = Some m"
      using "1.IH" Cons x by simp
    then show ?thesis
      using Cons x by (simp add: run_fire)
  qed
qed

text \<open>
  With no \<^verbatim>\<open>result\<close> fact yet, the first one is the one the top of the agenda asserts.
\<close>

lemma find_result_run_fire:
  assumes "find_result (facts e) = None" and "agenda e = (r, p) # rest"
  shows "find_result (facts (run stacking e)) = find_result [rhs r]"
proof -
  let ?e = "assert_fact stacking (e\<lparr>agenda := rest\<rparr>) (rhs r)"
  have "rhs r \<notin> set (facts e)"
    using assms(1) by (cases r) (auto simp: find_result_None_iff list_ex_iff)
  then have "find_result (facts ?e) = find_result [rhs r]"
    using assms(1) by (simp add: facts_assert_fact find_result_append)
  moreover obtain m where "find_result [rhs r] = Some m"
    using find_result_rhs [of r] by auto
  ultimately have "find_result (facts (run stacking ?e)) = find_result [rhs r]"
    by (simp add: find_result_run_Some)
  then show ?thesis
    using assms(2) by (simp add: run_fire)
qed

section \<open>One diagnosis, for any stacking\<close>

lemma matching_rules_nonempty:
  "sort_key stacking (filter (\<lambda>r. lhs r [Patient f c l k] (Patient f c l k)) KNOWLEDGE_BASE) \<noteq> []"
proof
  let ?xs = "filter (\<lambda>r. lhs r [Patient f c l k] (Patient f c l k)) KNOWLEDGE_BASE"
  assume "sort_key stacking ?xs = []"
  then have "length ?xs = 0"
    using length_sort [of stacking ?xs] by simp
  moreover have "Rule_3_low_risk \<in> set ?xs"
    by (simp add: KNOWLEDGE_BASE_def)
  ultimately show False
    by auto
qed

lemma find_result_run_patient:
  "find_result (facts (run stacking (assert_fact stacking (reset e) (Patient f c l k)))) =
   find_result [rhs (hd (sort_key stacking
     (filter (\<lambda>r. lhs r [Patient f c l k] (Patient f c l k)) KNOWLEDGE_BASE)))]"
proof -
  let ?P = "Patient f c l k"
  let ?rs = "sort_key stacking (filter (\<lambda>r. lhs r [?P] ?P) KNOWLEDGE_BASE)"
  obtain r rest where rs: "?rs = r # rest"
    using matching_rules_nonempty [of stacking f c l k] by (cases ?rs) auto
  let ?e = "\<lparr>facts = [?P], agenda = activations stacking [?P] ?P\<rparr>"
  have "agenda ?e = (r, ?P) # map (\<lambda>r. (r, ?P)) rest"
    using rs by (simp add: activations_def)
  moreover have "find_result (facts ?e) = None"
    by simp
  ultimately have "find_result (facts (run stacking ?e)) = find_result [rhs r]"
    by (rule find_result_run_fire [rotated])
  then show ?thesis
    using rs by (simp add: assert_patient_reset)
qed

lemma fired_rule_matches:
  "lhs (hd (sort_key stacking (filter (\<lambda>r. lhs r [Patient f c l k] (Patient f c l k)) KNOWLEDGE_BASE)))
     [Patient f c l k] (Patient f c l k)"
proof -
  let ?P = "Patient f c l k"
  let ?rs = "sort_key stacking (filter (\<lambda>r. lhs r [?P] ?P) KNOWLEDGE_BASE)"
  have "hd ?rs \<in> set ?rs"
    using matching_rules_nonempty [of stacking f c l k] by (rule hd_in_set)
  then have "hd ?rs \<in> set (filter (\<lambda>r. lhs r [?P] ?P) KNOWLEDGE_BASE)"
    by (simp only: set_sort)
  then show ?thesis by simp
qed

section \<open>The agenda in the order of the definitions\<close>

lemma activations_definition_order:
  "activations definition_order [Patient f c l k] (Patient f c l k) =
   map (\<lambda>r. (r, Patient f c l k))
     ((if f = ''yes'' \<and> l = ''yes'' then [Rule_1_high_risk] else []) @
      (if f = ''yes'' \<and> c = ''yes'' \<and> k = ''yes'' then [Rule_2_moderate_risk] else []) @
      [Rule_3_low_risk])"
  by (simp add: activations_def KNOWLEDGE_BASE_def)

lemma run_patient_definition_order:
  "run definition_order (assert_fact definition_order (reset e) (Patient f c l k)) =
   \<lparr>facts = [Patient f c l k,
              rhs (if f = ''yes'' \<and> l = ''yes'' then Rule_1_high_risk
                   else if f = ''yes'' \<and> c = ''yes'' \<and> k = ''yes'' then Rule_2_moderate_risk
                   else Rule_3_low_risk)],
     agenda = []\<rparr>"
  by (cases "f = ''yes''"; cases "l = ''yes''"; cases "c = ''yes''"; cases "k = ''yes''")
    (simp_all add: assert_patient_reset activations_definition_order run_Cons assert_Result run_Nil)

section \<open>The diagnosis\<close>

lemma deftemplate_patient_all:
  "deftemplate_patient
     [Fever \<mapsto> f, Cough \<mapsto> c, Loss_of_smell \<mapsto> l, Contact_with_patient \<mapsto> k] =
   Patient f c l k"
  by (simp add: deftemplate_patient_def slot_value_def)

lemma run_diagnosis_eq:
  "run_diagnosis stacking a =
   a\<lparr>env := run stacking (assert_fact stacking (reset (env a))
              (Patient (fever_var a) (cough_var a) (loss_of_smell_var a) (contact_var a))),
     result_var := display (facts (run stacking (assert_fact stacking (reset (env a))
              (Patient (fever_var a) (cough_var a) (loss_of_smell_var a) (contact_var a)))))\<rparr>"
  by (simp add: run_diagnosis_def Let_def deftemplate_patient_all)

lemma result_var_run_diagnosis:
  "result_var (run_diagnosis stacking a) =
   display [rhs (hd (sort_key stacking
     (filter (\<lambda>r. lhs r [Patient (fever_var a) (cough_var a) (loss_of_smell_var a) (contact_var a)]
                 (Patient (fever_var a) (cough_var a) (loss_of_smell_var a) (contact_var a)))
        KNOWLEDGE_BASE)))]"
  by (simp add: run_diagnosis_eq display_def find_result_run_patient)

lemma result_var_definition_order:
  "result_var (run_diagnosis definition_order a) =
   display [rhs (if fever_var a = ''yes'' \<and> loss_of_smell_var a = ''yes'' then Rule_1_high_risk
                 else if fever_var a = ''yes'' \<and> cough_var a = ''yes'' \<and> contact_var a = ''yes''
                   then Rule_2_moderate_risk
                 else Rule_3_low_risk)]"
  by (simp add: run_diagnosis_eq run_patient_definition_order display_def)

lemma display_Nil: "display [] = ''Could not determine diagnosis.''"
  by (simp add: display_def)

lemma display_Result: "display (Result m # fs) = m"
  by (simp add: display_def)

lemma display_Patient: "display (Patient f c l k # fs) = display fs"
  by (simp add: display_def)

lemma find_result_SomeD: "find_result fs = Some m \<Longrightarrow> Result m \<in> set fs"
  by (induction fs rule: find_result.induct) simp_all

lemma slot_value_default:
  "slot_value (given(s := None)) s' = slot_value (given(s \<mapsto> ''no'')) s'"
  by (simp add: slot_value_def)


lemma run_patient_only_rule_3:
  assumes "\<not> (f = ''yes'' \<and> l = ''yes'')" and "\<not> (f = ''yes'' \<and> c = ''yes'' \<and> k = ''yes'')"
  shows "run stacking (assert_fact stacking (reset e) (Patient f c l k)) =
    \<lparr>facts = [Patient f c l k, rhs Rule_3_low_risk], agenda = []\<rparr>"
proof -
  have "activations stacking [Patient f c l k] (Patient f c l k) =
      [(Rule_3_low_risk, Patient f c l k)]"
    using assms by (auto simp: activations_def KNOWLEDGE_BASE_def)
  then show ?thesis
    by (simp add: assert_patient_reset run_Cons assert_Result run_Nil)
qed

lemma find_result_run_diagnosis:
  "find_result (facts (env (run_diagnosis stacking a))) =
   find_result [rhs (hd (sort_key stacking
     (filter (\<lambda>r. lhs r [Patient (fever_var a) (cough_var a) (loss_of_smell_var a) (contact_var a)]
                 (Patient (fever_var a) (cough_var a) (loss_of_smell_var a) (contact_var a)))
        KNOWLEDGE_BASE)))]"
  by (simp add: run_diagnosis_eq find_result_run_patient)

lemma display_first_result:
  "\<not> list_ex is_result pre \<Longrightarrow> display (pre @ Result m # post) = m"
  by (simp add: display_def find_result_append find_result_None_iff [symmetric])

lemma display_no_result:
  "\<not> list_ex is_result fs \<Longrightarrow> display fs = ''Could not determine diagnosis.''"
  by (simp add: display_def find_result_None_iff [symmetric])

lemma display_in_facts: "list_ex is_result fs \<Longrightarrow> Result (display fs) \<in> set fs"
  by (cases "find_result fs") (auto simp: display_def find_result_None_iff dest: find_result_SomeD)

lemma classify_eq:
  "classify (f, c, l, k) =
     (if f \<and> l then ''Diagnosis: High Risk for COVID-19. Please get tested immediately and isolate.''
      else if f \<and> c \<and> k then
        ''Diagnosis: Moderate Risk for COVID-19. Monitor symptoms closely and consider testing.''
      else ''Diagnosis: Low Risk. Symptoms may be due to other causes. Monitor your health.'')"
  by (simp add: result_var_definition_order set_checkbuttons_def checkbutton_def display_Result)

lemma symptom_records_eq:
  "symptom_records =
    [(False, False, False, False), (False, False, False, True),
     (False, False, True, False), (False, False, True, True),
     (False, True, False, False), (False, True, False, True),
     (False, True, True, False), (False, True, True, True),
     (True, False, False, False), (True, False, False, True),
     (True, False, True, False), (True, False, True, True),
     (True, True, False, False), (True, True, False, True),
     (True, True, True, False), (True, True, True, True)]"
  by (simp add: symptom_records_def)

section \<open>The order of the agenda matters\<close>

text \<open>
  Rule 1 has no \<^verbatim>\<open>(not (result))\<close>. Were the activations stacked the other way round,
  rule 3 would fire first on four \<^verbatim>\<open>yes\<close> answers, rule 1 after it, and the form
  would show the low-risk message, the first of two \<^verbatim>\<open>result\<close> facts.
\<close>

lemma stacking_matters:
  "facts (env (run_diagnosis (\<lambda>r. 2 - definition_order r) (set_checkbuttons True True True True init))) =
     [Patient ''yes'' ''yes'' ''yes'' ''yes'', rhs Rule_3_low_risk, rhs Rule_1_high_risk]"
  "result_var (run_diagnosis (\<lambda>r. 2 - definition_order r) (set_checkbuttons True True True True init)) =
     ''Diagnosis: Low Risk. Symptoms may be due to other causes. Monitor your health.''"
  by (simp_all add: run_diagnosis_eq set_checkbuttons_def checkbutton_def init_def
      reset_def activations_def KNOWLEDGE_BASE_def run_Cons assert_fact_def Let_def
      run_Nil display_Patient display_Result)

section \<open>The claims\<close>

text \<open>
  The records with fever and loss of smell both true leave two booleans free: there are
  four of them among the sixteen, not eight, and four of the sixteen records are shown the
  high-risk message.
\<close>

theorem eight_records_counterexample:
  "length symptom_records = 16
   \<and> length (filter fever_and_loss_of_smell symptom_records) = 4
   \<and> length (filter fever_and_loss_of_smell symptom_records) \<noteq> 8
   \<and> length (filter shows_high_risk symptom_records) = 4
   \<and> length (filter shows_high_risk symptom_records) \<noteq> 8"
  by (simp add: symptom_records_eq shows_high_risk_def classify_eq del: classify.simps)

text \<open>
  C1. Whenever the fever variable and the loss-of-smell variable both hold \<^verbatim>\<open>yes\<close>,
  whatever the other two variables hold, the diagnosis shown is the high-risk message: rule 1
  fires before rule 2 and rule 3. These are four of the sixteen records, all four
  combinations of cough and contact, and no other record is shown the high-risk message.
  The agenda is in the order of the definitions.
\<close>

theorem rule_1_high_risk_first:
  "(fever_var a = ''yes'' \<and> loss_of_smell_var a = ''yes'' \<longrightarrow>
      result_var (run_diagnosis definition_order a) =
        ''Diagnosis: High Risk for COVID-19. Please get tested immediately and isolate.'')
   \<and> filter fever_and_loss_of_smell symptom_records =
       [(True, False, True, False), (True, False, True, True),
        (True, True, True, False), (True, True, True, True)]
   \<and> filter shows_high_risk symptom_records = filter fever_and_loss_of_smell symptom_records"
  by (simp add: symptom_records_eq shows_high_risk_def classify_eq result_var_definition_order
      display_Result del: classify.simps)

theorem rule_1_high_risk_first_witness:
  "result_var (run_diagnosis definition_order (set_checkbuttons True True True True init)) =
    ''Diagnosis: High Risk for COVID-19. Please get tested immediately and isolate.''"
  using rule_1_high_risk_first [of "set_checkbuttons True True True True init", THEN conjunct1]
  by (simp add: set_checkbuttons_def checkbutton_def)


text \<open>
  C2. For every content of the four variables, and in whatever order the engine stacks the
  activations, the diagnosis shown is one of the three messages of the rules; it is never
  the text of the fallback branch, because the loop over the facts always finds a
  \<^verbatim>\<open>result\<close> fact.
\<close>

theorem always_one_of_three_messages:
  "result_var (run_diagnosis stacking a) \<in>
     {''Diagnosis: High Risk for COVID-19. Please get tested immediately and isolate.'',
      ''Diagnosis: Moderate Risk for COVID-19. Monitor symptoms closely and consider testing.'',
      ''Diagnosis: Low Risk. Symptoms may be due to other causes. Monitor your health.''}
   \<and> result_var (run_diagnosis stacking a) \<noteq> ''Could not determine diagnosis.''
   \<and> find_result (facts (env (run_diagnosis stacking a))) \<noteq> None"
proof -
  let ?P = "Patient (fever_var a) (cough_var a) (loss_of_smell_var a) (contact_var a)"
  let ?r = "hd (sort_key stacking (filter (\<lambda>r. lhs r [?P] ?P) KNOWLEDGE_BASE))"
  have shown: "result_var (run_diagnosis stacking a) = display [rhs ?r]"
    by (rule result_var_run_diagnosis)
  have found: "find_result (facts (env (run_diagnosis stacking a))) = find_result [rhs ?r]"
    by (simp add: run_diagnosis_eq find_result_run_patient)
  show ?thesis
    using shown found find_result_rhs [of ?r]
    by (cases ?r) (simp_all add: display_Result)
qed

text \<open>
  C3. Whenever the fever, cough and contact variables hold \<^verbatim>\<open>yes\<close> and rule 1 does
  not match (the loss-of-smell variable does not hold \<^verbatim>\<open>yes\<close>), the diagnosis shown
  is the moderate-risk message: rule 2 fires before rule 3. The agenda is in the order of the
  definitions.
\<close>

theorem rule_2_moderate_risk_second:
  assumes "fever_var a = ''yes''" and "cough_var a = ''yes''" and "contact_var a = ''yes''"
    and "\<not> (fever_var a = ''yes'' \<and> loss_of_smell_var a = ''yes'')"
  shows "result_var (run_diagnosis definition_order a) =
    ''Diagnosis: Moderate Risk for COVID-19. Monitor symptoms closely and consider testing.''"
  using assms by (simp add: result_var_definition_order display_Result)

theorem rule_2_moderate_risk_second_witness:
  "result_var (run_diagnosis definition_order (set_checkbuttons True True False True init)) =
    ''Diagnosis: Moderate Risk for COVID-19. Monitor symptoms closely and consider testing.''"
  using rule_2_moderate_risk_second [of "set_checkbuttons True True False True init"]
  by (simp add: set_checkbuttons_def checkbutton_def)

text \<open>
  C4. Whenever neither the pattern of rule 1 (fever and loss of smell) nor the pattern of
  rule 2 (fever, cough and contact) matches, the all-\<^verbatim>\<open>no\<close> answers included, the
  diagnosis shown is the low-risk message, in whatever order the engine stacks the
  activations.
\<close>

theorem rule_3_low_risk_default:
  assumes "\<not> (fever_var a = ''yes'' \<and> loss_of_smell_var a = ''yes'')"
    and "\<not> (fever_var a = ''yes'' \<and> cough_var a = ''yes'' \<and> contact_var a = ''yes'')"
  shows "result_var (run_diagnosis stacking a) =
    ''Diagnosis: Low Risk. Symptoms may be due to other causes. Monitor your health.''"
proof -
  let ?P = "Patient (fever_var a) (cough_var a) (loss_of_smell_var a) (contact_var a)"
  let ?r = "hd (sort_key stacking (filter (\<lambda>r. lhs r [?P] ?P) KNOWLEDGE_BASE))"
  have "lhs ?r [?P] ?P"
    by (rule fired_rule_matches)
  with assms have "?r = Rule_3_low_risk"
    by (cases ?r) auto
  then show ?thesis
    by (simp add: result_var_run_diagnosis display_Result)
qed

theorem rule_3_low_risk_default_witness:
  "result_var (run_diagnosis definition_order (set_checkbuttons False False False False init)) =
    ''Diagnosis: Low Risk. Symptoms may be due to other causes. Monitor your health.''"
  using rule_3_low_risk_default
    [of "set_checkbuttons False False False False init" definition_order]
  by (simp add: set_checkbuttons_def checkbutton_def)

text \<open>
  C5. With the agenda in the order of the definitions, the facts after a run are the
  \<^verbatim>\<open>patient\<close> fact and exactly one \<^verbatim>\<open>result\<close> fact, for every content of the
  four variables; that fact is the one asserted by the first rule of the knowledge base, in
  the order rule 1, rule 2, rule 3, whose pattern matches.
\<close>

theorem exactly_one_result_fact:
  "\<exists>r. List.find (\<lambda>r. lhs r [Patient (fever_var a) (cough_var a) (loss_of_smell_var a) (contact_var a)]
                       (Patient (fever_var a) (cough_var a) (loss_of_smell_var a) (contact_var a)))
          KNOWLEDGE_BASE = Some r
     \<and> facts (env (run_diagnosis definition_order a)) =
         [Patient (fever_var a) (cough_var a) (loss_of_smell_var a) (contact_var a), rhs r]
     \<and> filter is_result (facts (env (run_diagnosis definition_order a))) = [rhs r]
     \<and> length (filter is_result (facts (env (run_diagnosis definition_order a)))) = 1"
  by (cases "fever_var a = ''yes''"; cases "loss_of_smell_var a = ''yes''";
      cases "cough_var a = ''yes''"; cases "contact_var a = ''yes''")
    (simp_all add: run_diagnosis_eq run_patient_definition_order KNOWLEDGE_BASE_def)

text \<open>
  C6. The diagnosis is a function of the four variables alone: two objects that agree on
  them get the same diagnosis and the same facts, whatever their environments held before
  and whatever they showed before (the environment is reset first); running twice on the
  same answers changes nothing.
\<close>

theorem diagnosis_depends_on_the_four_variables_only:
  "(fever_var a = fever_var b \<and> cough_var a = cough_var b \<and>
    loss_of_smell_var a = loss_of_smell_var b \<and> contact_var a = contact_var b \<longrightarrow>
      result_var (run_diagnosis stacking a) = result_var (run_diagnosis stacking b) \<and>
      env (run_diagnosis stacking a) = env (run_diagnosis stacking b))
   \<and> run_diagnosis stacking (a\<lparr>env := e, result_var := shown\<rparr>) = run_diagnosis stacking a
   \<and> run_diagnosis stacking (run_diagnosis stacking a) = run_diagnosis stacking a"
  by (simp add: run_diagnosis_eq reset_def)

theorem diagnosis_depends_on_the_four_variables_only_witness:
  "result_var (run_diagnosis definition_order
      (set_checkbuttons False True False False
         (run_diagnosis definition_order (set_checkbuttons True True True True init)))) =
   result_var (run_diagnosis definition_order (set_checkbuttons False True False False init))"
  using diagnosis_depends_on_the_four_variables_only
    [of "set_checkbuttons False True False False
           (run_diagnosis definition_order (set_checkbuttons True True True True init))"
        "set_checkbuttons False True False False init" definition_order]
  by (simp add: set_checkbuttons_def)

text \<open>
  C7. For all sixteen combinations of the four check boxes, the rules fired by the engine,
  with the agenda in the order of the definitions, show what the else-if chain of the spec
  returns.
\<close>

theorem rule_engine_refines_else_if_chain:
  "result_var (run_diagnosis definition_order (set_checkbuttons fever cough lossOfSmell contactWithCase a)) =
   classify_spec fever cough lossOfSmell contactWithCase"
  by (simp add: result_var_definition_order set_checkbuttons_def checkbutton_def classify_spec_def
      display_Result)

text \<open>
  C8. A flag that is not given is \<^verbatim>\<open>no\<close>. In the template: a slot that the text of a
  \<^verbatim>\<open>patient\<close> fact leaves out reads \<^verbatim>\<open>no\<close>, for each of the four slots and for
  all of them at once, so that the fact is the one written with that slot set to
  \<^verbatim>\<open>no\<close> and the engine runs the same on both. In the form: a cleared check box writes
  \<^verbatim>\<open>no\<close>, each of the four variables starts as \<^verbatim>\<open>no\<close>, and the untouched form is
  diagnosed as the form with four cleared boxes: the fact asserted has four \<^verbatim>\<open>no\<close>
  and the low-risk message is the result.
\<close>

theorem unset_flag_is_no:
  "slot_value (given(s := None)) s = ''no''
   \<and> deftemplate_patient Map.empty = Patient ''no'' ''no'' ''no'' ''no''
   \<and> deftemplate_patient [Cough \<mapsto> c, Loss_of_smell \<mapsto> l, Contact_with_patient \<mapsto> k] =
       Patient ''no'' c l k
   \<and> deftemplate_patient [Fever \<mapsto> f, Loss_of_smell \<mapsto> l, Contact_with_patient \<mapsto> k] =
       Patient f ''no'' l k
   \<and> deftemplate_patient [Fever \<mapsto> f, Cough \<mapsto> c, Contact_with_patient \<mapsto> k] =
       Patient f c ''no'' k
   \<and> deftemplate_patient [Fever \<mapsto> f, Cough \<mapsto> c, Loss_of_smell \<mapsto> l] =
       Patient f c l ''no''
   \<and> deftemplate_patient (given(s := None)) = deftemplate_patient (given(s \<mapsto> ''no''))
   \<and> run stacking (assert_fact stacking (reset e) (deftemplate_patient (given(s := None)))) =
       run stacking (assert_fact stacking (reset e) (deftemplate_patient (given(s \<mapsto> ''no''))))
   \<and> checkbutton False = ''no''
   \<and> fever_var init = ''no'' \<and> cough_var init = ''no''
   \<and> loss_of_smell_var init = ''no'' \<and> contact_var init = ''no''
   \<and> fever_var init = checkbutton False \<and> cough_var init = checkbutton False
   \<and> loss_of_smell_var init = checkbutton False \<and> contact_var init = checkbutton False
   \<and> set_checkbuttons False False False False init = init
   \<and> run_diagnosis stacking init = run_diagnosis stacking (set_checkbuttons False False False False init)
   \<and> facts (env (run_diagnosis stacking init)) =
       [Patient ''no'' ''no'' ''no'' ''no'',
        Result ''Diagnosis: Low Risk. Symptoms may be due to other causes. Monitor your health.'']"
proof -
  have unset: "slot_value (given(s := None)) s = ''no''"
    by (simp add: slot_value_def)
  have empty: "deftemplate_patient Map.empty = Patient ''no'' ''no'' ''no'' ''no''"
    by (simp add: deftemplate_patient_def slot_value_def)
  have three:
    "deftemplate_patient [Cough \<mapsto> c, Loss_of_smell \<mapsto> l, Contact_with_patient \<mapsto> k] =
       Patient ''no'' c l k"
    "deftemplate_patient [Fever \<mapsto> f, Loss_of_smell \<mapsto> l, Contact_with_patient \<mapsto> k] =
       Patient f ''no'' l k"
    "deftemplate_patient [Fever \<mapsto> f, Cough \<mapsto> c, Contact_with_patient \<mapsto> k] =
       Patient f c ''no'' k"
    "deftemplate_patient [Fever \<mapsto> f, Cough \<mapsto> c, Loss_of_smell \<mapsto> l] =
       Patient f c l ''no''"
    by (simp_all add: deftemplate_patient_def slot_value_def)
  have template: "deftemplate_patient (given(s := None)) = deftemplate_patient (given(s \<mapsto> ''no''))"
    by (simp only: deftemplate_patient_def slot_value_default)
  have form: "set_checkbuttons False False False False init = init"
    by (simp add: set_checkbuttons_def checkbutton_def init_def)
  have untouched: "facts (env (run_diagnosis stacking init)) =
       [Patient ''no'' ''no'' ''no'' ''no'',
        Result ''Diagnosis: Low Risk. Symptoms may be due to other causes. Monitor your health.'']"
    by (simp add: run_diagnosis_eq run_patient_only_rule_3 init_def)
  show ?thesis
    by (simp only: unset empty three template form untouched) (simp add: init_def checkbutton_def)
qed



text \<open>
  C10. After a run the text shown is what the loop over the environment's facts gives: the
  message of the first \<^verbatim>\<open>result\<close> fact, whatever follows it, and the fallback text
  when there is no \<^verbatim>\<open>result\<close> fact. Unless a \<^verbatim>\<open>result\<close> fact itself carries the
  fallback text, the fallback text is shown exactly when there is no \<^verbatim>\<open>result\<close> fact;
  this is so after every run.
\<close>

theorem shown_is_first_result_fact:
  "result_var (run_diagnosis stacking a) = display (facts (env (run_diagnosis stacking a)))
   \<and> (\<not> list_ex is_result pre \<longrightarrow> display (pre @ Result m # post) = m)
   \<and> (\<not> list_ex is_result fs \<longrightarrow> display fs = ''Could not determine diagnosis.'')
   \<and> (Result ''Could not determine diagnosis.'' \<notin> set fs \<longrightarrow>
        (display fs = ''Could not determine diagnosis.'') = (\<not> list_ex is_result fs))
   \<and> (result_var (run_diagnosis stacking a) = ''Could not determine diagnosis.'') =
       (\<not> list_ex is_result (facts (env (run_diagnosis stacking a))))"
proof -
  let ?P = "Patient (fever_var a) (cough_var a) (loss_of_smell_var a) (contact_var a)"
  let ?r = "hd (sort_key stacking (filter (\<lambda>r. lhs r [?P] ?P) KNOWLEDGE_BASE))"
  have shown: "result_var (run_diagnosis stacking a) = display (facts (env (run_diagnosis stacking a)))"
    by (simp add: run_diagnosis_eq)
  have iff: "(display fs = ''Could not determine diagnosis.'') = (\<not> list_ex is_result fs)"
    if "Result ''Could not determine diagnosis.'' \<notin> set fs"
    using that display_no_result [of fs] display_in_facts [of fs] by auto
  have "result_var (run_diagnosis stacking a) \<noteq> ''Could not determine diagnosis.''"
    by (cases ?r) (simp_all add: result_var_run_diagnosis display_Result)
  moreover have "find_result (facts (env (run_diagnosis stacking a))) \<noteq> None"
    by (simp only: find_result_run_diagnosis find_result_rhs not_False_eq_True)
  then have "list_ex is_result (facts (env (run_diagnosis stacking a)))"
    by (simp add: find_result_None_iff)
  ultimately show ?thesis
    using shown iff by (simp add: display_first_result display_no_result)
qed

theorem shown_is_first_result_fact_witness:
  "display ([Patient ''no'' ''no'' ''no'' ''no''] @ Result ''first'' # [Result ''second'']) = ''first''
   \<and> display [Patient ''no'' ''no'' ''no'' ''no''] = ''Could not determine diagnosis.''
   \<and> display [Patient ''yes'' ''no'' ''yes'' ''no'', rhs Rule_1_high_risk] \<noteq>
       ''Could not determine diagnosis.''"
  using shown_is_first_result_fact
      [of definition_order init "[Patient ''no'' ''no'' ''no'' ''no'']" "''first''"
          "[Result ''second'']" "[Patient ''no'' ''no'' ''no'' ''no'']"]
    shown_is_first_result_fact
      [of definition_order init "[]" "''x''" "[]"
          "[Patient ''yes'' ''no'' ''yes'' ''no'', rhs Rule_1_high_risk]"]
  by simp

end
